theory Spec2Isabelle
  imports Main "HOL-Library.Sublist"
begin

section \<open>Exceptions and Python string primitives\<close>

text \<open>
  The scraper is Python. An exception is a value of \<open>exn\<close>; a computation that may raise
  returns \<open>exn + 'a\<close> with \<open>Inl\<close> for the raised exception. Python's \<open>None\<close> is \<open>None\<close> of an
  option type. Strings are lists of 8-bit characters, so the model covers Latin-1 text; in
  that range the only characters matched by the regular expression class \<open>\d\<close> are
  \<open>0\<close> .. \<open>9\<close>. Integers are unbounded, as in Python; the interpreter's limit on the number of
  digits that \<open>int\<close> converts from a string is part of the model of \<open>int\<close>.
\<close>

datatype exn =
    HTTPError
  | ConnectionError
  | Timeout
  | AssertionError string
  | AttributeError
  | TypeError
  | ValueError
  | KeyError
  | UnboundLocalError
  | FileNotFoundError

definition isdigit :: "char \<Rightarrow> bool" where
  "isdigit c = (let n = (of_char c :: nat) in 48 \<le> n \<and> n \<le> 57)"

definition digit_val :: "char \<Rightarrow> int" where
  "digit_val c = int (of_char c) - 48"

text \<open>
  \<open>int(s)\<close> for a string. Whitespace around the number is skipped: the ASCII characters tab,
  line feed, vertical tab, form feed, carriage return and space, and the Latin-1 characters
  next line (0x85) and no-break space (0xA0); the separators 0x1C to 0x1F are not skipped.
  One sign is allowed, then decimal digits follow, with single underscores allowed between
  digits. Anything else raises \<open>ValueError\<close>; in particular the empty string does. A string
  with more digits than \<open>sys.int_max_str_digits\<close>, 4300 unless changed, raises \<open>ValueError\<close> as
  well; leading zeros count as digits, the sign, underscores and whitespace do not.
\<close>

definition int_isspace :: "char \<Rightarrow> bool" where
  "int_isspace c =
     (let n = (of_char c :: nat)
      in (9 \<le> n \<and> n \<le> 13) \<or> n = 32 \<or> n = 133 \<or> n = 160)"

definition int_strip :: "string \<Rightarrow> string" where
  "int_strip s = rev (dropWhile int_isspace (rev (dropWhile int_isspace s)))"

definition int_max_str_digits :: nat where
  "int_max_str_digits = 4300"

fun int_digits :: "int \<Rightarrow> string \<Rightarrow> exn + int" where
  "int_digits acc [] = Inr acc"
| "int_digits acc (c # cs) =
     (if isdigit c then int_digits (10 * acc + digit_val c) cs
      else if c = CHR ''_'' then
        (case cs of
           [] \<Rightarrow> Inl ValueError
         | d # ds \<Rightarrow> if isdigit d then int_digits (10 * acc + digit_val d) ds
                     else Inl ValueError)
      else Inl ValueError)"

definition int_literal :: "string \<Rightarrow> exn + int" where
  "int_literal s =
     (case s of
        [] \<Rightarrow> Inl ValueError
      | c # cs \<Rightarrow>
          if \<not> isdigit c then Inl ValueError
          else if int_max_str_digits < length (filter isdigit s) then Inl ValueError
          else int_digits (digit_val c) cs)"

definition py_int :: "string \<Rightarrow> exn + int" where
  "py_int s =
     (case int_strip s of
        [] \<Rightarrow> Inl ValueError
      | c # cs \<Rightarrow>
          if c = CHR ''-'' then (case int_literal cs of Inl e \<Rightarrow> Inl e | Inr n \<Rightarrow> Inr (- n))
          else if c = CHR ''+'' then int_literal cs
          else int_literal (c # cs))"

text \<open>
  \<open>s.replace(old, new)\<close>: every occurrence of \<open>old\<close>, found from left to right without
  overlap, is replaced. With an empty \<open>old\<close> Python puts \<open>new\<close> before every character and
  at the end.
\<close>

function replace_scan :: "string \<Rightarrow> string \<Rightarrow> string \<Rightarrow> string" where
  "replace_scan old new s =
     (if s = [] \<or> old = [] then []
      else if take (length old) s = old
      then new @ replace_scan old new (drop (length old) s)
      else hd s # replace_scan old new (tl s))"
  by pat_completeness auto
termination
  by (relation "measure (\<lambda>(old, new, s). length s)") auto

definition py_replace :: "string \<Rightarrow> string \<Rightarrow> string \<Rightarrow> string" where
  "py_replace old new s =
     (if old = [] then new @ concat (map (\<lambda>c. c # new) s)
      else replace_scan old new s)"

text \<open>\<open>s.rstrip(chars)\<close>: drops from the right end every character that occurs in \<open>chars\<close>.\<close>

definition py_rstrip :: "string \<Rightarrow> string \<Rightarrow> string" where
  "py_rstrip chars s = rev (dropWhile (\<lambda>c. c \<in> set chars) (rev s))"

text \<open>
  \<open>str(n)\<close> for an integer: decimal digits, with a minus sign for a negative number. Python
  refuses to convert an integer of more than 4300 digits; identifiers, page counts and list
  lengths of that size are outside this model.
\<close>

fun str_nat :: "nat \<Rightarrow> string" where
  "str_nat n =
     (if n < 10 then [char_of (48 + n)]
      else str_nat (n div 10) @ [char_of (48 + n mod 10)])"

definition str_int :: "int \<Rightarrow> string" where
  "str_int i = (if i < 0 then CHR ''-'' # str_nat (nat (- i)) else str_nat (nat i))"

section \<open>The count parser\<close>

text \<open>
  \<^verbatim>\<open>
  def parse_count(text):
      try:
          num_string = re.search('[\d,]+', text).group()
          num = int(num_string.replace(',', ''))
          return num
      except (ValueError, AttributeError):
          return None
  \<close>
  \<open>re.search\<close> returns the leftmost match, and \<open>+\<close> is greedy: the match is the first
  maximal run of digits and commas, or \<open>None\<close> when the text has neither.
\<close>

definition digit_or_comma :: "char \<Rightarrow> bool" where
  "digit_or_comma c = (isdigit c \<or> c = CHR '','')"

definition re_search_number :: "string \<Rightarrow> string option" where
  "re_search_number text =
     (case dropWhile (\<lambda>c. \<not> digit_or_comma c) text of
        [] \<Rightarrow> None
      | c # cs \<Rightarrow> Some (takeWhile digit_or_comma (c # cs)))"

definition parse_count_body :: "string \<Rightarrow> exn + int" where
  "parse_count_body text =
     (case re_search_number text of
        None \<Rightarrow> Inl AttributeError
      | Some num_string \<Rightarrow> py_int (py_replace '','' '''' num_string))"

definition parse_count :: "string \<Rightarrow> exn + int option" where
  "parse_count text =
     (case parse_count_body text of
        Inr num \<Rightarrow> Inr (Some num)
      | Inl ValueError \<Rightarrow> Inr None
      | Inl AttributeError \<Rightarrow> Inr None
      | Inl e \<Rightarrow> Inl e)"

section \<open>The parsed document\<close>

text \<open>
  \<open>BeautifulSoup(r.text, 'html.parser')\<close> builds a tree of tags and text nodes. A tag has a
  name, a dictionary of attributes and a list of children; the value of an attribute is a
  string, or a list of strings for a multi-valued attribute such as \<open>class\<close>. The soup object
  itself is the tag at the root. An attribute dictionary is an association list read with
  \<open>map_of\<close>.
\<close>

datatype attr_value = AttrStr string | AttrList "string list"

datatype node =
    Tag string "(string \<times> attr_value) list" "node list"
  | NavigableString string

fun descendants :: "node \<Rightarrow> node list" where
  "descendants (Tag n a cs) = concat (map (\<lambda>c. c # descendants c) cs)"
| "descendants (NavigableString s) = []"

text \<open>\<open>.text\<close>: all the strings below a node, in document order, joined.\<close>

fun get_text :: "node \<Rightarrow> string" where
  "get_text (Tag n a cs) = concat (map get_text cs)"
| "get_text (NavigableString s) = s"

text \<open>\<open>.string\<close>: the single string of a tag with exactly one child, followed downwards.\<close>

fun tag_string :: "node \<Rightarrow> string option" where
  "tag_string (NavigableString s) = Some s"
| "tag_string (Tag n a cs) = (case cs of [c] \<Rightarrow> tag_string c | _ \<Rightarrow> None)"

definition has_name :: "string \<Rightarrow> node \<Rightarrow> bool" where
  "has_name n d = (case d of Tag m a cs \<Rightarrow> m = n | NavigableString s \<Rightarrow> False)"

definition py_join :: "string \<Rightarrow> string list \<Rightarrow> string" where
  "py_join sep xs = (case xs of [] \<Rightarrow> [] | y # ys \<Rightarrow> y @ concat (map (\<lambda>z. sep @ z) ys))"

text \<open>
  An attribute filter with a string: a string value must be equal to it; of a list value
  one item must be, or the items joined by single spaces.
\<close>

definition has_attr :: "string \<Rightarrow> string \<Rightarrow> node \<Rightarrow> bool" where
  "has_attr key want d =
     (case d of
        NavigableString s \<Rightarrow> False
      | Tag m a cs \<Rightarrow>
          (case map_of a key of
             None \<Rightarrow> False
           | Some (AttrStr v) \<Rightarrow> v = want
           | Some (AttrList vs) \<Rightarrow> want \<in> set vs \<or> py_join '' '' vs = want))"

text \<open>A \<open>string=regex\<close> filter: the tag's \<open>.string\<close> exists and the pattern is found in it.\<close>

definition string_matches :: "(string \<Rightarrow> bool) \<Rightarrow> node \<Rightarrow> bool" where
  "string_matches pat d = (case tag_string d of None \<Rightarrow> False | Some s \<Rightarrow> pat s)"

definition find_all :: "(node \<Rightarrow> bool) \<Rightarrow> node \<Rightarrow> node list" where
  "find_all crit d = filter crit (descendants d)"

definition find_first :: "(node \<Rightarrow> bool) \<Rightarrow> node \<Rightarrow> node option" where
  "find_first crit d = (case find_all crit d of [] \<Rightarrow> None | x # xs \<Rightarrow> Some x)"

text \<open>
  The same operations on a Python value that may be \<open>None\<close>: calling a method or reading
  an attribute of \<open>None\<close> raises \<open>AttributeError\<close>.
\<close>

definition py_find :: "(node \<Rightarrow> bool) \<Rightarrow> node option \<Rightarrow> exn + node option" where
  "py_find crit obj = (case obj of None \<Rightarrow> Inl AttributeError | Some d \<Rightarrow> Inr (find_first crit d))"

definition py_find_all :: "(node \<Rightarrow> bool) \<Rightarrow> node option \<Rightarrow> exn + node list" where
  "py_find_all crit obj = (case obj of None \<Rightarrow> Inl AttributeError | Some d \<Rightarrow> Inr (find_all crit d))"

definition py_text :: "node option \<Rightarrow> exn + string" where
  "py_text obj = (case obj of None \<Rightarrow> Inl AttributeError | Some d \<Rightarrow> Inr (get_text d))"

text \<open>\<open>tag[key]\<close> reads the attribute dictionary and raises \<open>KeyError\<close> for a missing key.\<close>

definition getitem :: "node \<Rightarrow> string \<Rightarrow> exn + attr_value" where
  "getitem d key =
     (case d of
        NavigableString s \<Rightarrow> Inl TypeError
      | Tag m a cs \<Rightarrow> (case map_of a key of None \<Rightarrow> Inl KeyError | Some v \<Rightarrow> Inr v))"

text \<open>\<open>int(v)\<close> of an attribute value: a list is not a number (\<open>TypeError\<close>).\<close>

definition int_of_attr :: "attr_value \<Rightarrow> exn + int" where
  "int_of_attr v = (case v of AttrStr s \<Rightarrow> py_int s | AttrList vs \<Rightarrow> Inl TypeError)"

subsection \<open>The three text patterns\<close>

text \<open>
  The patterns are compiled with \<open>re.IGNORECASE\<close> and used with \<open>search\<close>: a match may
  start at any position. In each pattern the literal after the class \<open>[\d,]\<close> starts with a
  space, which is not in the class, so a run matched by \<open>[\d,]+\<close> ends where the digits and
  commas end.
\<close>

definition lower_ascii :: "char \<Rightarrow> char" where
  "lower_ascii c =
     (let n = (of_char c :: nat) in if 65 \<le> n \<and> n \<le> 90 then char_of (n + 32) else c)"

definition starts_with_ci :: "string \<Rightarrow> string \<Rightarrow> bool" where
  "starts_with_ci lit s = (map lower_ascii (take (length lit) s) = map lower_ascii lit)"

fun tails :: "string \<Rightarrow> string list" where
  "tails [] = [[]]"
| "tails (c # cs) = (c # cs) # tails cs"

definition re_search :: "(string \<Rightarrow> bool) \<Rightarrow> string \<Rightarrow> bool" where
  "re_search match_at s = list_ex match_at (tails s)"

definition collection_regex :: "string \<Rightarrow> bool" where
  "collection_regex =
     re_search (\<lambda>t. takeWhile digit_or_comma t \<noteq> [] \<and>
                    starts_with_ci '' other tune collections'' (dropWhile digit_or_comma t))"

definition tune_sets_regex :: "string \<Rightarrow> bool" where
  "tune_sets_regex =
     re_search (\<lambda>t. case t of [] \<Rightarrow> False
                    | c # cs \<Rightarrow> digit_or_comma c \<and> starts_with_ci '' tune sets'' cs)"

definition tune_book_regex :: "string \<Rightarrow> bool" where
  "tune_book_regex =
     re_search (\<lambda>t. starts_with_ci ''has been added to '' t \<and>
                    (let u = drop (length ''has been added to '') t
                     in takeWhile digit_or_comma u \<noteq> [] \<and>
                        starts_with_ci '' tunebooks'' (dropWhile digit_or_comma u)))"

section \<open>The field extractors\<close>

text \<open>
  \<open>then_do\<close> sequences two steps of a \<open>try\<close> body: the second runs only if the first did not
  raise. \<open>or_default\<close> is a bare \<open>except:\<close> that replaces any exception by a default.
\<close>

definition then_do :: "exn + 'a \<Rightarrow> ('a \<Rightarrow> exn + 'b) \<Rightarrow> exn + 'b" where
  "then_do r f = (case r of Inl e \<Rightarrow> Inl e | Inr x \<Rightarrow> f x)"

definition or_default :: "exn + 'a \<Rightarrow> 'a \<Rightarrow> 'a" where
  "or_default r d = (case r of Inl e \<Rightarrow> d | Inr x \<Rightarrow> x)"

text \<open>
  \<^verbatim>\<open>
  def parse_h1(soup_obj):
      try:
          h1 = soup_obj.find('h1')
      except:
          return 'H1 Error', 'H1 Error'
      try:
          tune_type = h1.find('a').text
      except:
          tune_type = 'Error'
      try:
          tune_name = h1.text.rstrip(tune_type).rstrip(' ')
      except:
          tune_name = 'Error'
      return tune_type, tune_name
  \<close>
  \<open>find\<close> returns \<open>None\<close> when nothing matches; it does not raise.
\<close>

definition parse_h1 :: "node \<Rightarrow> string \<times> string" where
  "parse_h1 soup_obj =
     (case py_find (has_name ''h1'') (Some soup_obj) of
        Inl e \<Rightarrow> (''H1 Error'', ''H1 Error'')
      | Inr h1 \<Rightarrow>
          (let tune_type = or_default (then_do (py_find (has_name ''a'') h1) py_text) ''Error'';
               tune_name = or_default
                 (then_do (py_text h1) (\<lambda>t. Inr (py_rstrip '' '' (py_rstrip tune_type t))))
                 ''Error''
           in (tune_type, tune_name)))"

definition also_known_as :: string where
  "also_known_as = ''Also known as'' @ [CHR 0x0A]"

text \<open>
  \<^verbatim>\<open>
  def parse_paragraphs(soup_obj):
      try:
          aliases_elem = soup_obj.find('p', attrs={'class': 'info'})
          aliases = aliases_elem.text.replace('Also known as\n', '')
      except:
          aliases = ""
      try:
          collection_regex = re.compile('[\d,]+ other tune collections', re.IGNORECASE)
          collections_text = soup_obj.find('a', string=collection_regex).text
          collections = parse_count(collections_text)
      except:
          collections = 0
      try:
          tune_sets_regex = re.compile('[\d,] tune sets', re.IGNORECASE)
          tune_sets_text = soup_obj.find('a', string=tune_sets_regex).text
          tune_sets = parse_count(tune_sets_text)
      except:
          tune_sets = 0
      try:
          tune_book_regex = re.compile('has been added to [\d,]+ tunebooks', re.IGNORECASE)
          tune_book_text = soup_obj.find('p', string=tune_book_regex).text
          tune_books = parse_count(tune_book_text)
      except:
          tune_books = 0
      return aliases, collections, tune_sets, tune_books
  \<close>
\<close>

definition parse_aliases :: "node \<Rightarrow> string" where
  "parse_aliases soup_obj =
     or_default
       (then_do (then_do (py_find (\<lambda>d. has_name ''p'' d \<and> has_attr ''class'' ''info'' d)
                            (Some soup_obj)) py_text)
                (\<lambda>t. Inr (py_replace also_known_as [] t)))
       []"

definition count_of :: "string \<Rightarrow> (string \<Rightarrow> bool) \<Rightarrow> node \<Rightarrow> int option" where
  "count_of tag_name regex soup_obj =
     or_default
       (then_do (then_do (py_find (\<lambda>d. has_name tag_name d \<and> string_matches regex d)
                            (Some soup_obj)) py_text)
                parse_count)
       (Some 0)"

definition parse_paragraphs :: "node \<Rightarrow> string \<times> int option \<times> int option \<times> int option" where
  "parse_paragraphs soup_obj =
     (let aliases = parse_aliases soup_obj;
          collections = count_of ''a'' collection_regex soup_obj;
          tune_sets = count_of ''a'' tune_sets_regex soup_obj;
          tune_books = count_of ''p'' tune_book_regex soup_obj
      in (aliases, collections, tune_sets, tune_books))"

text \<open>
  \<^verbatim>\<open>
  def parse_summary(soup_obj):
      try:
          summary = soup_obj.find('details').find('summary')
      except:
          return 0
      try:
          recordings = parse_count(summary.find('a').text)
          return recordings
      except:
          return 0
  \<close>
\<close>

definition parse_summary :: "node \<Rightarrow> int option" where
  "parse_summary soup_obj =
     (case then_do (py_find (has_name ''details'') (Some soup_obj))
                   (py_find (has_name ''summary'')) of
        Inl e \<Rightarrow> Some 0
      | Inr summary \<Rightarrow>
          or_default (then_do (then_do (py_find (has_name ''a'') summary) py_text) parse_count)
                     (Some 0))"

text \<open>
  \<^verbatim>\<open>
  def parse_stats(soup_obj):
      try:
          return [int(tune['data-tuneid']) for tune in
                       soup_obj.find(class_='stats').findAll('a')]
      except (TypeError, AttributeError):
          return None
  \<close>
  Only \<open>TypeError\<close> and \<open>AttributeError\<close> are caught; any other exception leaves the function.
\<close>

fun tuneids :: "node list \<Rightarrow> exn + int list" where
  "tuneids [] = Inr []"
| "tuneids (tune # rest) =
     then_do (then_do (getitem tune ''data-tuneid'') int_of_attr)
       (\<lambda>i. then_do (tuneids rest) (\<lambda>is. Inr (i # is)))"

definition parse_stats :: "node \<Rightarrow> exn + int list option" where
  "parse_stats soup_obj =
     (case then_do (then_do (py_find (has_attr ''class'' ''stats'') (Some soup_obj))
                            (py_find_all (has_name ''a'')))
                   tuneids of
        Inr ids \<Rightarrow> Inr (Some ids)
      | Inl TypeError \<Rightarrow> Inr None
      | Inl AttributeError \<Rightarrow> Inr None
      | Inl e \<Rightarrow> Inl e)"

text \<open>
  \<^verbatim>\<open>
  def parse_tabs(soup_obj):
      try:
          tabs = soup_obj.findAll('div', attrs={'class': 'setting-sheetmusic'})
      except:
          tabs = []
      return len(tabs)
  \<close>
\<close>

definition parse_tabs :: "node \<Rightarrow> int" where
  "parse_tabs soup_obj =
     int (length (or_default
       (py_find_all (\<lambda>d. has_name ''div'' d \<and> has_attr ''class'' ''setting-sheetmusic'' d)
          (Some soup_obj))
       []))"

subsection \<open>One record per page\<close>

text \<open>
  The dictionary built by \<open>strain_soup\<close>, with its keys \<open>id\<close>, \<open>name\<close>, \<open>aliases\<close>, \<open>type\<close>,
  \<open>set_pairings\<close>, \<open>tabs\<close>, \<open>recordings\<close>, \<open>collections\<close>, \<open>sets\<close>, \<open>books\<close>. The extractors run in
  the order of the source; an exception leaving \<open>parse_stats\<close> leaves \<open>strain_soup\<close>.
\<close>

record tune =
  tune_id :: int
  tune_name :: string
  aliases :: string
  tune_type :: string
  set_pairings :: "int list option"
  tabs :: int
  recordings :: "int option"
  collections :: "int option"
  tune_sets :: "int option"
  tune_books :: "int option"

definition strain_soup :: "node \<Rightarrow> int \<Rightarrow> exn + tune" where
  "strain_soup soup num =
     (case parse_h1 soup of (ty, nm) \<Rightarrow>
        (let rec = parse_summary soup in
           then_do (parse_stats soup) (\<lambda>recorded_with.
             (case parse_paragraphs soup of (al, co, ts, tb) \<Rightarrow>
                Inr \<lparr> tune_id = num, tune_name = nm, aliases = al, tune_type = ty,
                      set_pairings = recorded_with, tabs = parse_tabs soup, recordings = rec,
                      collections = co, tune_sets = ts, tune_books = tb \<rparr>))))"

section \<open>The fetcher\<close>

text \<open>
  The outside world is explicit. \<open>requests_log\<close> lists the URLs requested so far, \<open>stdout\<close> the
  lines printed, and \<open>tunes_json\<close> the table stored in the file \<open>tunes.json\<close> (\<open>None\<close> while the
  file does not exist). The network is a parameter: \<open>net k url\<close> is what the \<open>k\<close>-th request
  of the run (counted from 0) does when it asks for \<open>url\<close>: it raises, or it returns a
  response. The HTML parser is a parameter as well.
\<close>

record response =
  status_code :: nat
  "text" :: string

type_synonym network = "nat \<Rightarrow> string \<Rightarrow> exn + response"

record world =
  requests_log :: "string list"
  stdout :: "string list"
  tunes_json :: "(int \<times> tune) list option"

definition requests_get :: "network \<Rightarrow> string \<Rightarrow> world \<Rightarrow> (exn + response) \<times> world" where
  "requests_get net url w =
     (net (length (requests_log w)) url, w\<lparr>requests_log := requests_log w @ [url]\<rparr>)"

text \<open>\<open>r.raise_for_status()\<close> raises \<open>HTTPError\<close> for a status from 400 to 599.\<close>

definition raise_for_status :: "response \<Rightarrow> exn + unit" where
  "raise_for_status r =
     (if 400 \<le> status_code r \<and> status_code r < 600 then Inl HTTPError else Inr ())"

definition tunes_url :: string where
  "tunes_url = ''https://thesession.org/tunes/''"

text \<open>
  \<^verbatim>\<open>
  attempts = 0
  awaiting_response = True
  while awaiting_response and attempts < 2:
      try:
          r = requests.get(tunes_url + str(tune_id))
          awaiting_response = False
      except:
          attempts += 1
  \<close>
  The loop state is \<open>attempts\<close>, \<open>awaiting_response\<close> and the variable \<open>r\<close>, which is unbound
  (\<open>None\<close> here) until a request returns.
\<close>

function get_soup_loop ::
  "network \<Rightarrow> string \<Rightarrow> nat \<Rightarrow> bool \<Rightarrow> response option \<Rightarrow> world \<Rightarrow> response option \<times> world"
where
  "get_soup_loop net url attempts awaiting_response r w =
     (if awaiting_response \<and> attempts < 2 then
        (case requests_get net url w of
           (Inr resp, w') \<Rightarrow> get_soup_loop net url attempts False (Some resp) w'
         | (Inl e, w') \<Rightarrow> get_soup_loop net url (attempts + 1) awaiting_response r w')
      else (r, w))"
  by pat_completeness auto
termination
  by (relation "measure (\<lambda>(net, url, attempts, awaiting_response, r, w).
        2 * (2 - attempts) + (if awaiting_response then 1 else 0))") auto

text \<open>
  \<^verbatim>\<open>
  try:
      r.raise_for_status()
  except:
      raise requests.HTTPError
  soup = BeautifulSoup(r.text, 'html.parser')
  return soup
  \<close>
  Reading the unbound \<open>r\<close> raises \<open>UnboundLocalError\<close> inside the \<open>try\<close>; the bare \<open>except\<close>
  turns every exception into \<open>HTTPError\<close>.
\<close>

definition status_check :: "response option \<Rightarrow> exn + response" where
  "status_check r =
     (case r of
        None \<Rightarrow> Inl UnboundLocalError
      | Some resp \<Rightarrow> then_do (raise_for_status resp) (\<lambda>u. Inr resp))"

definition get_soup ::
  "network \<Rightarrow> (string \<Rightarrow> node) \<Rightarrow> int \<Rightarrow> world \<Rightarrow> (exn + node) \<times> world" where
  "get_soup net html_parser num w =
     (case get_soup_loop net (tunes_url @ str_int num) 0 True None w of
        (r, w') \<Rightarrow>
          (case status_check r of
             Inl e \<Rightarrow> (Inl HTTPError, w')
           | Inr resp \<Rightarrow> (Inr (html_parser (text resp)), w')))"

section \<open>The batch driver\<close>

text \<open>
  The argument \<open>library\<close> is any Python object. \<open>type(library) == list\<close> holds for a list
  only; a tuple, a string or a number fails the assertion. A list argument holds records.
  \<^verbatim>\<open>
  if library is not None:
      try:
          assert type(library) == list
          tune_list = library
      except AssertionError:
          raise AssertionError("library must be a 1D list.")
  else:
      tune_list = []
  \<close>
  \<open>tune_list\<close> is the caller's list object itself, so appending to it extends the caller's
  collection; the list returned by the model stands for both.
\<close>

datatype pyobj =
    PyNone
  | PyList "tune list"
  | PyTuple "tune list"
  | PyStr string
  | PyInt int

definition initial_tune_list :: "pyobj \<Rightarrow> exn + tune list" where
  "initial_tune_list library =
     (case library of
        PyNone \<Rightarrow> Inr []
      | PyList l \<Rightarrow> Inr l
      | _ \<Rightarrow> Inl (AssertionError ''library must be a 1D list.''))"

text \<open>
  \<^verbatim>\<open>
  for num in range(start, start + pages):
      try:
          soup = get_soup(num)
      except requests.HTTPError:
          continue
      strained_soup = strain_soup(soup, num)
      tune_list.append(strained_soup)
  \<close>
\<close>

fun fetch_pages ::
  "network \<Rightarrow> (string \<Rightarrow> node) \<Rightarrow> int list \<Rightarrow> tune list \<Rightarrow> world \<Rightarrow> (exn + tune list) \<times> world"
where
  "fetch_pages net html_parser [] tune_list w = (Inr tune_list, w)"
| "fetch_pages net html_parser (num # nums) tune_list w =
     (case get_soup net html_parser num w of
        (Inl e, w') \<Rightarrow>
          if e = HTTPError then fetch_pages net html_parser nums tune_list w'
          else (Inl e, w')
      | (Inr soup, w') \<Rightarrow>
          (case strain_soup soup num of
             Inl e \<Rightarrow> (Inl e, w')
           | Inr strained_soup \<Rightarrow>
               fetch_pages net html_parser nums (tune_list @ [strained_soup]) w'))"

definition print :: "string \<Rightarrow> world \<Rightarrow> world" where
  "print line w = w\<lparr>stdout := stdout w @ [line]\<rparr>"

text \<open>
  \<^verbatim>\<open>
  id_range = f'{start}-{start + pages - 1}'
  print(f'Obtained data for {len(tune_list)} tunes (IDs {id_range}).')
  return tune_list
  \<close>
\<close>

definition report :: "tune list \<Rightarrow> int \<Rightarrow> int \<Rightarrow> string" where
  "report tune_list start pages =
     (let id_range = str_int start @ ''-'' @ str_int (start + pages - 1)
      in ''Obtained data for '' @ str_int (int (length tune_list)) @ '' tunes (IDs ''
           @ id_range @ '').'')"

definition get_session_tunes ::
  "network \<Rightarrow> (string \<Rightarrow> node) \<Rightarrow> int \<Rightarrow> int \<Rightarrow> pyobj \<Rightarrow> world \<Rightarrow> (exn + tune list) \<times> world"
where
  "get_session_tunes net html_parser pages start library w =
     (case initial_tune_list library of
        Inl e \<Rightarrow> (Inl e, w)
      | Inr tune_list0 \<Rightarrow>
          (case fetch_pages net html_parser [start..start + pages - 1] tune_list0 w of
             (Inl e, w') \<Rightarrow> (Inl e, w')
           | (Inr tune_list, w') \<Rightarrow> (Inr tune_list, print (report tune_list start pages) w')))"

section \<open>The persistence merge\<close>

text \<open>
  \<^verbatim>\<open>
  for batch in batches:
      new_df = pd.DataFrame(get_session_tunes(batch_size, start=batch))
      indexed_df = new_df.set_index('id')
      library = pd.read_json('tunes.json')
      combined_data = pd.concat([library, indexed_df])
      combined_data.to_json('tunes.json')
  \<close>
  A table is its rows in order, each with its index value. The pandas operations, as far as
  this loop uses them:
  \<^item> \<open>pd.DataFrame(records).set_index('id')\<close> makes one row per record, indexed by its \<open>id\<close>;
    with no record there is no column \<open>id\<close> and \<open>set_index\<close> raises \<open>KeyError\<close>;
  \<^item> \<open>pd.read_json\<close> raises when the file does not exist;
  \<^item> \<open>pd.concat\<close> puts the rows of the tables one after the other and keeps every row;
  \<^item> \<open>to_json\<close> with its default orientation writes one JSON object per column, keyed by
    the index, and raises \<open>ValueError\<close> before writing anything when the index is not unique.
\<close>

type_synonym dataframe = "(int \<times> tune) list"

definition set_index_id :: "tune list \<Rightarrow> exn + dataframe" where
  "set_index_id recs = (if recs = [] then Inl KeyError else Inr (map (\<lambda>t. (tune_id t, t)) recs))"

definition read_json :: "world \<Rightarrow> exn + dataframe" where
  "read_json w = (case tunes_json w of None \<Rightarrow> Inl FileNotFoundError | Some df \<Rightarrow> Inr df)"

definition pd_concat :: "dataframe list \<Rightarrow> dataframe" where
  "pd_concat dfs = concat dfs"

definition to_json :: "dataframe \<Rightarrow> world \<Rightarrow> (exn + unit) \<times> world" where
  "to_json df w =
     (if distinct (map fst df) then (Inr (), w\<lparr>tunes_json := Some df\<rparr>)
      else (Inl ValueError, w))"

definition combined_data :: "tune list \<Rightarrow> world \<Rightarrow> exn + dataframe" where
  "combined_data recs w =
     then_do (set_index_id recs) (\<lambda>indexed_df.
       then_do (read_json w) (\<lambda>library. Inr (pd_concat [library, indexed_df])))"

definition merge_batch :: "tune list \<Rightarrow> world \<Rightarrow> (exn + unit) \<times> world" where
  "merge_batch recs w =
     (case combined_data recs w of
        Inl e \<Rightarrow> (Inl e, w)
      | Inr df \<Rightarrow> to_json df w)"

text \<open>
  \<^verbatim>\<open>
  number_tunes = 24000
  batch_size = 250
  starting_point = 1
  batches = list(range(starting_point, number_tunes, batch_size))
  \<close>
\<close>

definition batches :: "int list" where
  "batches = map (\<lambda>k. 1 + 250 * int k) [0..<96]"

fun main_loop :: "network \<Rightarrow> (string \<Rightarrow> node) \<Rightarrow> int list \<Rightarrow> world \<Rightarrow> (exn + unit) \<times> world" where
  "main_loop net html_parser [] w = (Inr (), w)"
| "main_loop net html_parser (batch # rest) w =
     (case get_session_tunes net html_parser 250 batch PyNone w of
        (Inl e, w') \<Rightarrow> (Inl e, w')
      | (Inr recs, w') \<Rightarrow>
          (case merge_batch recs w' of
             (Inl e, w'') \<Rightarrow> (Inl e, w'')
           | (Inr u, w'') \<Rightarrow> main_loop net html_parser rest w''))"

definition main :: "network \<Rightarrow> (string \<Rightarrow> node) \<Rightarrow> world \<Rightarrow> (exn + unit) \<times> world" where
  "main net html_parser w = main_loop net html_parser batches w"

section \<open>Reference notions and example inputs\<close>

text \<open>
  The number a string of decimal digits writes, and the first maximal run of digits and
  commas of a text: the notions in which the behaviour of the count parser is stated.
\<close>

definition decimal_value :: "string \<Rightarrow> int" where
  "decimal_value ds = foldl (\<lambda>acc c. 10 * acc + digit_val c) 0 ds"

definition first_number_run :: "string \<Rightarrow> string" where
  "first_number_run s = takeWhile digit_or_comma (dropWhile (\<lambda>c. \<not> digit_or_comma c) s)"

text \<open>
  The identifier a hyperlink carries: the number written by its \<open>data-tuneid\<close> attribute when
  that is a non-empty string of digits, no longer than \<open>int\<close> converts.
\<close>

definition numeric_id :: "node \<Rightarrow> int option" where
  "numeric_id d =
     (case d of
        NavigableString s \<Rightarrow> None
      | Tag m a cs \<Rightarrow>
          (case map_of a ''data-tuneid'' of
             Some (AttrStr ds) \<Rightarrow>
               if ds \<noteq> [] \<and> list_all isdigit ds \<and> length ds \<le> int_max_str_digits
               then Some (decimal_value ds) else None
           | _ \<Rightarrow> None))"

text \<open>Documents used as concrete inputs below.\<close>

definition empty_document :: node where
  "empty_document = Tag ''[document]'' [] []"

definition reel_first_document :: node where
  "reel_first_document =
     Tag ''[document]'' []
       [Tag ''h1'' [] [Tag ''a'' [] [NavigableString ''Reel''], NavigableString '' The Tune'']]"

definition reel_last_document :: node where
  "reel_last_document =
     Tag ''[document]'' []
       [Tag ''h1'' [] [NavigableString ''The Tune '', Tag ''a'' [] [NavigableString ''Reel'']]]"

definition stats_link_without_id :: node where
  "stats_link_without_id =
     Tag ''[document]'' []
       [Tag ''div'' [(''class'', AttrList [''stats''])]
          [Tag ''a'' [(''href'', AttrStr ''/tunes/2'')] [NavigableString ''The Kesh'']]]"

definition stats_links_with_ids :: node where
  "stats_links_with_ids =
     Tag ''[document]'' []
       [Tag ''div'' [(''class'', AttrList [''stats''])]
          [Tag ''a'' [(''data-tuneid'', AttrStr ''12'')] [NavigableString ''The Kesh''],
           Tag ''a'' [(''data-tuneid'', AttrStr ''7'')] [NavigableString ''Out On The Ocean'']]]"

definition aliases_document :: node where
  "aliases_document =
     Tag ''[document]'' []
       [Tag ''p'' [(''class'', AttrList [''info''])]
          [NavigableString (also_known_as @ ''Kerry, '' @ also_known_as @ ''Kesh'')]]"

text \<open>Responses, networks and worlds used as concrete inputs below.\<close>

definition ok_response :: response where
  "ok_response = \<lparr>status_code = 200, text = ''<html></html>''\<rparr>"

definition not_found_response :: response where
  "not_found_response = \<lparr>status_code = 404, text = ''Not Found''\<rparr>"

definition net_down :: network where
  "net_down k url = Inl Timeout"

definition net_second_missing :: network where
  "net_second_missing k url =
     (if url = tunes_url @ ''2'' then Inr not_found_response else Inr ok_response)"

definition net_up :: network where
  "net_up k url = Inr ok_response"

definition fresh_world :: world where
  "fresh_world = \<lparr>requests_log = [], stdout = [], tunes_json = Some []\<rparr>"

definition kesh :: tune where
  "kesh = \<lparr> tune_id = 55, tune_name = ''The Kesh'', aliases = [], tune_type = ''jig'',
            set_pairings = None, tabs = 0, recordings = Some 0, collections = Some 0,
            tune_sets = Some 0, tune_books = Some 0 \<rparr>"

text \<open>The record that \<open>strain_soup\<close> builds from the empty document for the identifier \<open>n\<close>.\<close>

definition blank_record :: "int \<Rightarrow> tune" where
  "blank_record n =
     \<lparr> tune_id = n, tune_name = ''Error'', aliases = [], tune_type = ''Error'',
       set_pairings = None, tabs = 0, recordings = Some 0, collections = Some 0,
       tune_sets = Some 0, tune_books = Some 0 \<rparr>"

section \<open>The count parser: what it returns\<close>

declare replace_scan.simps [simp del]
declare get_soup_loop.simps [simp del]

lemma isdigit_not_space: "isdigit c \<Longrightarrow> \<not> int_isspace c"
  by (auto simp: isdigit_def int_isspace_def Let_def)

lemma isdigit_not_sign:
  "isdigit c \<Longrightarrow> c \<noteq> CHR ''-'' \<and> c \<noteq> CHR ''+'' \<and> c \<noteq> CHR ''_'' \<and> c \<noteq> CHR '',''"
  by (auto simp: isdigit_def)

lemma int_digits_all:
  "list_all isdigit ds \<Longrightarrow>
   int_digits acc ds = Inr (foldl (\<lambda>a c. 10 * a + digit_val c) acc ds)"
  by (induction ds arbitrary: acc) auto

lemma int_strip_digits: "list_all isdigit ds \<Longrightarrow> int_strip ds = ds"
proof (cases ds rule: rev_cases)
  case Nil
  then show ?thesis by (simp add: int_strip_def)
next
  case (snoc ys y)
  assume a: "list_all isdigit ds"
  have lead: "dropWhile int_isspace ds = ds"
    using a by (cases ds) (auto dest: isdigit_not_space)
  have trail: "dropWhile int_isspace (rev ds) = rev ds"
    using a snoc by (auto dest: isdigit_not_space)
  show ?thesis by (simp add: int_strip_def lead trail)
qed

lemma filter_all_digits: "list_all isdigit ds \<Longrightarrow> filter isdigit ds = ds"
  by (induction ds) auto

lemma py_int_digits:
  assumes "list_all isdigit ds" and "ds \<noteq> []" and "length ds \<le> int_max_str_digits"
  shows "py_int ds = Inr (decimal_value ds)"
proof -
  obtain c cs where ds: "ds = c # cs" using assms(2) by (cases ds) auto
  have c: "isdigit c" and cs: "list_all isdigit cs" using assms(1) ds by auto
  have lit: "int_literal ds = Inr (decimal_value ds)"
    using assms(3) c cs filter_all_digits [OF assms(1)]
    by (simp add: int_literal_def ds int_digits_all decimal_value_def)
  have strip: "int_strip (c # cs) = c # cs"
    using int_strip_digits [OF assms(1)] ds by simp
  show ?thesis
    using c lit isdigit_not_sign [OF c]
    by (simp add: py_int_def strip ds)
qed

lemma py_int_too_long:
  assumes "list_all isdigit ds" and "int_max_str_digits < length ds"
  shows "py_int ds = Inl ValueError"
proof -
  obtain c cs where ds: "ds = c # cs" using assms(2) by (cases ds) auto
  have c: "isdigit c" using assms(1) ds by auto
  have lit: "int_literal ds = Inl ValueError"
    using assms(2) c filter_all_digits [OF assms(1)] by (simp add: int_literal_def ds)
  have strip: "int_strip (c # cs) = c # cs"
    using int_strip_digits [OF assms(1)] ds by simp
  show ?thesis
    using c lit isdigit_not_sign [OF c]
    by (simp add: py_int_def strip ds)
qed

lemma py_int_empty: "py_int [] = Inl ValueError"
  by (simp add: py_int_def int_strip_def)

lemma replace_scan_single: "replace_scan [a] [] s = filter (\<lambda>c. c \<noteq> a) s"
proof (induction s)
  case Nil
  show ?case by (simp add: replace_scan.simps)
next
  case (Cons c cs)
  then show ?case by (subst replace_scan.simps) auto
qed

lemma strip_commas: "py_replace '','' [] s = filter (\<lambda>c. c \<noteq> CHR '','') s"
  by (simp add: py_replace_def replace_scan_single)

lemma filter_run:
  "list_all digit_or_comma run \<Longrightarrow> filter (\<lambda>c. c \<noteq> CHR '','') run = filter isdigit run"
  by (induction run) (auto simp: digit_or_comma_def dest: isdigit_not_sign)

lemma run_all: "list_all digit_or_comma (first_number_run s)"
  by (simp add: first_number_run_def list_all_iff) (meson set_takeWhileD)

lemma run_subset: "set (first_number_run s) \<subseteq> set s"
  unfolding first_number_run_def
  by (meson set_takeWhileD set_dropWhileD subsetI)

lemma re_search_number_run:
  "re_search_number s =
     (if first_number_run s = [] then None else Some (first_number_run s))"
  apply (simp add: re_search_number_def first_number_run_def split: list.splits)
  apply (metis dropWhile_eq_Nil_conv hd_dropWhile list.sel(1) list.distinct(1)
      takeWhile_eq_Nil_iff)
  done

text \<open>
  What the code computes, for every text: the digits of the first maximal run of digits
  and commas decide. With no digit in that run, or with more digits than \<open>int\<close> converts,
  the result is \<open>None\<close>; otherwise it is the number the digits write.
\<close>

lemma parse_count_eq:
  "parse_count s =
     (if list_ex isdigit (first_number_run s)
         \<and> length (filter isdigit (first_number_run s)) \<le> int_max_str_digits
      then Inr (Some (decimal_value (filter isdigit (first_number_run s))))
      else Inr None)"
proof (cases "first_number_run s = []")
  case True
  then show ?thesis
    by (simp add: parse_count_def parse_count_body_def re_search_number_run)
next
  case False
  let ?run = "first_number_run s"
  let ?ds = "filter isdigit ?run"
  have eq: "py_replace '','' [] ?run = ?ds"
    by (simp add: strip_commas filter_run run_all)
  have body: "parse_count_body s = py_int ?ds"
    using False by (simp add: parse_count_body_def re_search_number_run eq)
  have all: "list_all isdigit ?ds"
    by (simp add: list_all_iff)
  show ?thesis
  proof (cases "list_ex isdigit ?run")
    case no_digit: False
    then have "?ds = []"
      by (simp add: list_ex_iff filter_empty_conv)
    then show ?thesis
      using no_digit by (simp add: parse_count_def body py_int_empty)
  next
    case True
    then have ne: "?ds \<noteq> []"
      by (simp add: list_ex_iff filter_empty_conv)
    show ?thesis
    proof (cases "length ?ds \<le> int_max_str_digits")
      case short: True
      have "py_int ?ds = Inr (decimal_value ?ds)"
        using all ne short by (rule py_int_digits)
      then show ?thesis
        using True short by (simp add: parse_count_def body)
    next
      case long: False
      then have "py_int ?ds = Inl ValueError"
        using all by (intro py_int_too_long) auto
      then show ?thesis
        using long by (simp add: parse_count_def body)
    qed
  qed
qed

lemma parse_count_never_raises: "parse_count s \<noteq> Inl e"
  by (simp add: parse_count_eq)

lemma parse_count_no_digit: "\<not> list_ex isdigit s \<Longrightarrow> parse_count s = Inr None"
proof -
  assume "\<not> list_ex isdigit s"
  then have "\<not> list_ex isdigit (first_number_run s)"
    using run_subset [of s] by (auto simp: list_ex_iff)
  then show ?thesis
    by (simp add: parse_count_eq)
qed

lemma parse_count_thousands: "parse_count ''1,234 recordings'' = Inr (Some 1234)"
  by (simp add: parse_count_eq first_number_run_def digit_or_comma_def isdigit_def
      decimal_value_def digit_val_def int_max_str_digits_def)

text \<open>
  Claim C3 expects, for every text that holds a digit, the integer of its first number, and
  \<open>None\<close> only for a text without digits; the docstring of \<open>parse_count\<close> says the same
  (the first number string encountered in the text, \<open>None\<close> if no number was found). The
  second half holds (\<open>parse_count_no_digit\<close>), and so does the example
  (\<open>parse_count_thousands\<close>). The first half fails where a comma comes before the first
  digit: the pattern \<open>[\d,]+\<close> then matches the comma alone, \<open>int('')\<close> raises \<open>ValueError\<close>, and
  the function returns \<open>None\<close> although the text holds a number. Evaluated on the text
  \<open>Sets, 5\<close>:
\<close>

theorem parse_count_comma_before_digit:
  "list_ex isdigit ''Sets, 5'' \<and> parse_count ''Sets, 5'' = Inr None"
  by (simp add: parse_count_def parse_count_body_def re_search_number_def digit_or_comma_def
      isdigit_def py_replace_def replace_scan.simps py_int_def int_strip_def)

section \<open>The aliases extractor\<close>

lemma replace_scan_Nil: "replace_scan old new [] = []"
  by (simp add: replace_scan.simps)

lemma replace_scan_occurrence:
  "old \<noteq> [] \<Longrightarrow> replace_scan old new (old @ s) = new @ replace_scan old new s"
  by (subst replace_scan.simps) simp

lemma no_overlap:
  assumes border: "hd old \<notin> set (tl old)" and ne: "pre \<noteq> []" and short: "length pre < length old"
  shows "take (length old) (pre @ old @ post) \<noteq> old"
proof
  assume eq: "take (length old) (pre @ old @ post) = old"
  let ?k = "length pre"
  have "old ! ?k = take (length old) (pre @ old @ post) ! ?k" using eq by simp
  also have "\<dots> = (pre @ old @ post) ! ?k" using short by (rule nth_take)
  also have "\<dots> = hd old" using short by (cases old) (auto simp: nth_append)
  finally have "old ! ?k = hd old" .
  moreover have "old ! ?k \<in> set (tl old)"
  proof -
    have pos: "0 < ?k" using ne by simp
    have "tl old ! (?k - 1) \<in> set (tl old)"
      using ne short by (intro nth_mem) (cases pre, auto)
    moreover have "old ! ?k = tl old ! (?k - 1)"
      using pos short by (cases old) (auto simp: nth_Cons')
    ultimately show ?thesis by simp
  qed
  ultimately show False using border by simp
qed

lemma replace_scan_split:
  assumes border: "hd old \<notin> set (tl old)" and old: "old \<noteq> []"
  shows "replace_scan old [] (pre @ old @ post) = replace_scan old [] pre @ replace_scan old [] post"
proof (induction pre rule: length_induct)
  case (1 pre)
  show ?case
  proof (cases "pre = []")
    case True
    then show ?thesis using old by (simp add: replace_scan_occurrence replace_scan_Nil)
  next
    case ne: False
    show ?thesis
    proof (cases "take (length old) pre = old")
      case True
      then obtain rest where pre: "pre = old @ rest"
        by (metis append_take_drop_id)
      have "length rest < length pre" using pre old by simp
      then have "replace_scan old [] (rest @ old @ post) = replace_scan old [] rest @ replace_scan old [] post"
        using 1 by blast
      then show ?thesis using old by (simp add: pre replace_scan_occurrence)
    next
      case False
      have differs: "take (length old) (pre @ old @ post) \<noteq> old"
      proof (cases "length pre < length old")
        case True
        then show ?thesis using no_overlap [OF border ne] by blast
      next
        case False
        then have "take (length old) (pre @ old @ post) = take (length old) pre" by simp
        then show ?thesis using \<open>take (length old) pre \<noteq> old\<close> by metis
      qed
      have "length (tl pre) < length pre" using ne by (cases pre) auto
      then have ih: "replace_scan old [] (tl pre @ old @ post) = replace_scan old [] (tl pre) @ replace_scan old [] post"
        using 1 by blast
      have l: "replace_scan old [] (pre @ old @ post) = hd pre # replace_scan old [] (tl pre @ old @ post)"
        using ne old differs by (subst replace_scan.simps) (cases pre, auto)
      have r: "replace_scan old [] pre = hd pre # replace_scan old [] (tl pre)"
        using ne old False by (subst replace_scan.simps) auto
      show ?thesis by (simp add: l r ih)
    qed
  qed
qed

lemma also_known_as_border: "hd also_known_as \<notin> set (tl also_known_as) \<and> also_known_as \<noteq> []"
  by (simp add: also_known_as_def)

lemma py_replace_also_known_as:
  "py_replace also_known_as [] (pre @ also_known_as @ post)
     = py_replace also_known_as [] pre @ py_replace also_known_as [] post"
  using also_known_as_border by (simp add: py_replace_def replace_scan_split)

text \<open>
  Claim C10. \<open>str.replace\<close> deletes every occurrence of the phrase \<open>Also known as\<close> followed by a
  newline, wherever it stands. Whenever the text of the supplementary-info paragraph is
  \<open>pre\<close>, then the phrase, then \<open>post\<close>, for any \<open>pre\<close> (so the occurrence need not be leading),
  the aliases returned are the cleaned \<open>pre\<close> followed by the cleaned \<open>post\<close>: that occurrence is
  gone, and so are the occurrences inside \<open>pre\<close> and \<open>post\<close>. The phrase cannot overlap itself,
  because its first letter occurs nowhere else in it, so the scan from the left meets every
  occurrence.
\<close>

theorem aliases_every_occurrence_removed:
  assumes "find_first (\<lambda>d. has_name ''p'' d \<and> has_attr ''class'' ''info'' d) soup_obj = Some p"
      and "get_text p = pre @ also_known_as @ post"
  shows "fst (parse_paragraphs soup_obj)
           = py_replace also_known_as [] pre @ py_replace also_known_as [] post"
  using assms
  by (simp add: parse_paragraphs_def parse_aliases_def py_find_def py_text_def then_do_def
      or_default_def py_replace_also_known_as Let_def)

theorem aliases_every_occurrence_removed_witness:
  "find_first (\<lambda>d. has_name ''p'' d \<and> has_attr ''class'' ''info'' d) aliases_document
     = Some (Tag ''p'' [(''class'', AttrList [''info''])]
          [NavigableString (also_known_as @ ''Kerry, '' @ also_known_as @ ''Kesh'')])
   \<and> fst (parse_paragraphs aliases_document) = ''Kerry, Kesh''"
proof -
  let ?p = "Tag ''p'' [(''class'', AttrList [''info''])]
          [NavigableString (also_known_as @ ''Kerry, '' @ also_known_as @ ''Kesh'')]"
  have f: "find_first (\<lambda>d. has_name ''p'' d \<and> has_attr ''class'' ''info'' d) aliases_document = Some ?p"
    by (simp add: aliases_document_def find_first_def find_all_def has_name_def has_attr_def)
  have t: "get_text ?p = (also_known_as @ ''Kerry, '') @ also_known_as @ ''Kesh''"
    by simp
  have a: "py_replace also_known_as [] (also_known_as @ ''Kerry, '') = ''Kerry, ''"
    by (simp add: py_replace_def also_known_as_def replace_scan.simps)
  have b: "py_replace also_known_as [] ''Kesh'' = ''Kesh''"
    by (simp add: py_replace_def also_known_as_def replace_scan.simps)
  show ?thesis
    using aliases_every_occurrence_removed [OF f t] f by (simp add: a b)
qed

section \<open>The name and type extractor\<close>

lemma parse_h1_no_heading:
  "find_first (has_name ''h1'') soup_obj = None \<Longrightarrow> parse_h1 soup_obj = (''Error'', ''Error'')"
  by (simp add: parse_h1_def py_find_def py_text_def then_do_def or_default_def)

text \<open>
  Claim C4 expects the pair \<open>H1 Error\<close>, \<open>H1 Error\<close> for a document with no \<open>h1\<close> element. The
  code returns \<open>Error\<close>, \<open>Error\<close> there: \<open>find\<close> answers \<open>None\<close> without raising, so the first
  \<open>except\<close> branch, which holds the \<open>H1 Error\<close> pair, is not taken, and the two later
  \<open>try\<close> blocks fail on \<open>None\<close> and fall back to \<open>Error\<close>. Evaluated on the empty document:
\<close>

theorem parse_h1_empty_document:
  "find_first (has_name ''h1'') empty_document = None
   \<and> parse_h1 empty_document = (''Error'', ''Error'')"
  by (simp add: empty_document_def parse_h1_def py_find_def py_text_def then_do_def
      or_default_def find_first_def find_all_def)

lemma py_rstrip_label:
  assumes "base = [] \<or> last base \<notin> set label"
  shows "py_rstrip label (base @ label) = base"
proof -
  have stop: "dropWhile (\<lambda>c. c \<in> set label) (rev base) = rev base"
    using assms by (cases base rule: rev_cases) auto
  show ?thesis
    by (simp add: py_rstrip_def dropWhile_append stop)
qed

text \<open>
  Claim C5, as amended. \<open>rstrip\<close> works at the right end of the heading text. For a document
  whose heading contains a type hyperlink and whose heading text ends with the text of that
  hyperlink, where the character just before the label, if there is one, does not occur in
  the label, the extracted type is the label and the extracted name is the rest of the
  heading text with its trailing spaces removed. So the heading \<open>The Tune Reel\<close> with the
  hyperlink \<open>Reel\<close> gives the name \<open>The Tune\<close>.
\<close>

theorem parse_h1_label_at_end:
  assumes "find_first (has_name ''h1'') soup_obj = Some h1"
      and "find_first (has_name ''a'') h1 = Some a"
      and "get_text h1 = base @ get_text a"
      and "base = [] \<or> last base \<notin> set (get_text a)"
  shows "parse_h1 soup_obj = (get_text a, py_rstrip '' '' base)"
  using assms
  by (simp add: parse_h1_def py_find_def py_text_def then_do_def or_default_def Let_def
      py_rstrip_label)

theorem parse_h1_label_at_end_witness:
  "find_first (has_name ''h1'') reel_last_document
     = Some (Tag ''h1'' [] [NavigableString ''The Tune '', Tag ''a'' [] [NavigableString ''Reel'']])
   \<and> get_text (Tag ''h1'' [] [NavigableString ''The Tune '', Tag ''a'' [] [NavigableString ''Reel'']])
       = ''The Tune Reel''
   \<and> parse_h1 reel_last_document = (''Reel'', ''The Tune'')"
proof -
  let ?a = "Tag ''a'' [] [NavigableString ''Reel'']"
  let ?h1 = "Tag ''h1'' [] [NavigableString ''The Tune '', ?a]"
  have h: "find_first (has_name ''h1'') reel_last_document = Some ?h1"
    by (simp add: reel_last_document_def find_first_def find_all_def has_name_def)
  have a: "find_first (has_name ''a'') ?h1 = Some ?a"
    by (simp add: find_first_def find_all_def has_name_def)
  have t: "get_text ?h1 = ''The Tune '' @ get_text ?a"
    by simp
  have l: "''The Tune '' = [] \<or> last ''The Tune '' \<notin> set (get_text ?a)"
    by simp
  show ?thesis
    using parse_h1_label_at_end [OF h a t l] h by (simp add: py_rstrip_def)
qed

text \<open>
  The claim as first stated fails on its own example. In the heading \<open>Reel The Tune\<close> the
  label comes first, and nothing is removed from the left end; from the right end \<open>rstrip\<close>
  removes the final \<open>e\<close>, a character of the label, and the name is \<open>Reel The Tun\<close>.
\<close>

theorem parse_h1_reel_first:
  "find_first (has_name ''h1'') reel_first_document
     = Some (Tag ''h1'' [] [Tag ''a'' [] [NavigableString ''Reel''], NavigableString '' The Tune''])
   \<and> get_text (Tag ''h1'' [] [Tag ''a'' [] [NavigableString ''Reel''], NavigableString '' The Tune''])
       = ''Reel The Tune''
   \<and> parse_h1 reel_first_document = (''Reel'', ''Reel The Tun'')"
  by (simp add: reel_first_document_def parse_h1_def py_find_def py_text_def then_do_def
      or_default_def find_first_def find_all_def has_name_def py_rstrip_def)

section \<open>The related-tune extractor\<close>

lemma parse_stats_no_region:
  "find_first (has_attr ''class'' ''stats'') soup_obj = None \<Longrightarrow> parse_stats soup_obj = Inr None"
  by (simp add: parse_stats_def py_find_def py_find_all_def then_do_def)

lemma tuneids_numeric:
  "list_all (\<lambda>d. numeric_id d \<noteq> None) links \<Longrightarrow>
   tuneids links = Inr (map (\<lambda>d. the (numeric_id d)) links)"
proof (induction links)
  case Nil
  then show ?case by simp
next
  case (Cons tune rest)
  then have "numeric_id tune \<noteq> None" by simp
  then have "then_do (getitem tune ''data-tuneid'') int_of_attr = Inr (the (numeric_id tune))"
    by (auto simp: numeric_id_def getitem_def int_of_attr_def then_do_def py_int_digits
        split: node.splits option.splits attr_value.splits if_splits)
  then show ?case using Cons by (simp add: then_do_def)
qed

lemma parse_stats_numeric:
  assumes "find_first (has_attr ''class'' ''stats'') soup_obj = Some region"
      and "list_all (\<lambda>d. numeric_id d \<noteq> None) (find_all (has_name ''a'') region)"
  shows "parse_stats soup_obj
           = Inr (Some (map (\<lambda>d. the (numeric_id d)) (find_all (has_name ''a'') region)))"
  using assms
  by (simp add: parse_stats_def py_find_def py_find_all_def then_do_def tuneids_numeric)

lemma parse_stats_links_with_ids:
  "parse_stats stats_links_with_ids = Inr (Some [12, 7])"
  by (simp add: stats_links_with_ids_def parse_stats_def py_find_def py_find_all_def
      then_do_def find_first_def find_all_def has_name_def has_attr_def getitem_def
      int_of_attr_def py_int_def int_strip_def int_isspace_def int_literal_def isdigit_def
      digit_val_def int_max_str_digits_def)

text \<open>
  Claim C6 expects \<open>None\<close> when a hyperlink of the stats region has no \<open>data-tuneid\<close>
  attribute. The code raises there: \<open>tune['data-tuneid']\<close> raises \<open>KeyError\<close>, which is not
  among the two exceptions the function catches, so the exception leaves \<open>parse_stats\<close>.
  Evaluated on a document whose stats region holds one hyperlink with an \<open>href\<close> only:
\<close>

theorem parse_stats_link_without_id:
  "parse_stats stats_link_without_id = Inl KeyError"
  by (simp add: stats_link_without_id_def parse_stats_def py_find_def py_find_all_def
      then_do_def find_first_def find_all_def has_name_def has_attr_def getitem_def)

section \<open>The fetcher: retry and failure\<close>

lemma get_soup_loop_done: "get_soup_loop net url attempts False r w = (r, w)"
  by (simp add: get_soup_loop.simps)

lemma get_soup_loop_exhausted: "2 \<le> attempts \<Longrightarrow> get_soup_loop net url attempts awaiting r w = (r, w)"
  by (simp add: get_soup_loop.simps)

lemma get_soup_loop_answer:
  assumes "attempts < 2" and "net (length (requests_log w)) url = Inr resp"
  shows "get_soup_loop net url attempts True r w
           = (Some resp, w\<lparr>requests_log := requests_log w @ [url]\<rparr>)"
  using assms
  by (subst get_soup_loop.simps) (simp add: requests_get_def get_soup_loop_done)

lemma get_soup_loop_failure:
  assumes "attempts < 2" and "net (length (requests_log w)) url = Inl e"
  shows "get_soup_loop net url attempts True r w
           = get_soup_loop net url (attempts + 1) True r (w\<lparr>requests_log := requests_log w @ [url]\<rparr>)"
  using assms
  by (subst get_soup_loop.simps) (simp add: requests_get_def)

lemma get_soup_loop_keeps:
  "stdout (snd (get_soup_loop net url attempts awaiting r w)) = stdout w
   \<and> tunes_json (snd (get_soup_loop net url attempts awaiting r w)) = tunes_json w"
proof (induction net url attempts awaiting r w rule: get_soup_loop.induct)
  case (1 net url attempts awaiting r w)
  show ?case
  proof (cases "awaiting \<and> attempts < 2")
    case False
    then show ?thesis by (subst (1 2) get_soup_loop.simps) auto
  next
    case True
    obtain out w1 where g: "requests_get net url w = (out, w1)" by (cases "requests_get net url w")
    then have w1: "stdout w1 = stdout w \<and> tunes_json w1 = tunes_json w"
      by (auto simp: requests_get_def)
    show ?thesis
    proof (cases out)
      case (Inl e)
      then show ?thesis
        using True g w1 "1.IH"(1) [OF True g [symmetric] Inl]
        by (subst (1 2) get_soup_loop.simps) simp
    next
      case (Inr resp)
      then show ?thesis
        using True g w1 "1.IH"(2) [OF True g [symmetric] Inr]
        by (subst (1 2) get_soup_loop.simps) simp
    qed
  qed
qed

lemma get_soup_keeps:
  "get_soup net html_parser num w = (res, w') \<Longrightarrow> stdout w' = stdout w \<and> tunes_json w' = tunes_json w"
  using get_soup_loop_keeps [of net "tunes_url @ str_int num" 0 True None w]
  by (auto simp: get_soup_def split: prod.splits sum.splits)

lemma get_soup_raises: "get_soup net html_parser num w = (Inl e, w') \<Longrightarrow> e = HTTPError"
  by (auto simp: get_soup_def split: prod.splits sum.splits)

lemma get_soup_first_answer:
  assumes "net (length (requests_log w)) (tunes_url @ str_int num) = Inr resp"
  shows "get_soup net html_parser num w =
           (if 400 \<le> status_code resp \<and> status_code resp < 600 then Inl HTTPError
            else Inr (html_parser (text resp)),
            w\<lparr>requests_log := requests_log w @ [tunes_url @ str_int num]\<rparr>)"
  using assms
  by (simp add: get_soup_def get_soup_loop_answer status_check_def raise_for_status_def then_do_def)

text \<open>
  Claim C2. When the first network call of a fetch fails at transport level, the fetcher
  makes exactly one more call to the same URL and no third one. What the fetch returns is
  then decided by that retry: if the retry fails as well, \<open>get_soup\<close> raises \<open>HTTPError\<close>, the
  exception the batch driver catches; if it answers, the status check decides as usual. The
  \<open>UnboundLocalError\<close> raised by reading the unset result never leaves \<open>get_soup\<close>.
\<close>

theorem get_soup_retries_once:
  assumes "net (length (requests_log w)) (tunes_url @ str_int num) = Inl e"
  shows "requests_log (snd (get_soup net html_parser num w))
           = requests_log w @ [tunes_url @ str_int num, tunes_url @ str_int num]
       \<and> fst (get_soup net html_parser num w) =
           (case net (Suc (length (requests_log w))) (tunes_url @ str_int num) of
              Inl e' \<Rightarrow> Inl HTTPError
            | Inr resp \<Rightarrow>
                if 400 \<le> status_code resp \<and> status_code resp < 600 then Inl HTTPError
                else Inr (html_parser (text resp)))
       \<and> fst (get_soup net html_parser num w) \<noteq> Inl UnboundLocalError"
proof -
  have never: "fst (get_soup net html_parser num w) \<noteq> Inl UnboundLocalError"
    using get_soup_raises [of net html_parser num w UnboundLocalError]
    by (cases "get_soup net html_parser num w") auto
  let ?url = "tunes_url @ str_int num"
  let ?w1 = "w\<lparr>requests_log := requests_log w @ [?url]\<rparr>"
  let ?w2 = "w\<lparr>requests_log := requests_log w @ [?url, ?url]\<rparr>"
  have first: "get_soup_loop net ?url 0 True None w = get_soup_loop net ?url 1 True None ?w1"
    using get_soup_loop_failure [of 0 net w ?url e None] assms by simp
  show ?thesis
  proof (cases "net (Suc (length (requests_log w))) ?url")
    case (Inl e')
    then have "get_soup_loop net ?url 1 True None ?w1 = (None, ?w2)"
      using get_soup_loop_failure [of 1 net ?w1 ?url e' None]
      by (simp add: get_soup_loop_exhausted)
    then show ?thesis
      using Inl first never by (simp add: get_soup_def status_check_def)
  next
    case (Inr resp)
    then have "get_soup_loop net ?url 1 True None ?w1 = (Some resp, ?w2)"
      using get_soup_loop_answer [of 1 net ?w1 ?url resp None] by simp
    then show ?thesis
      using Inr first never
      by (simp add: get_soup_def status_check_def raise_for_status_def then_do_def)
  qed
qed

theorem get_soup_retries_once_witness:
  "net_down (length (requests_log fresh_world)) (tunes_url @ str_int 3) = Inl Timeout
   \<and> requests_log (snd (get_soup net_down (\<lambda>s. empty_document) 3 fresh_world))
       = [tunes_url @ str_int 3, tunes_url @ str_int 3]
   \<and> fst (get_soup net_down (\<lambda>s. empty_document) 3 fresh_world) = Inl HTTPError"
proof -
  have h: "net_down (length (requests_log fresh_world)) (tunes_url @ str_int 3) = Inl Timeout"
    by (simp add: net_down_def)
  show ?thesis
    using get_soup_retries_once [where net = net_down and w = fresh_world and num = 3
        and e = Timeout and html_parser = "\<lambda>s. empty_document"] h
    by (simp add: net_down_def fresh_world_def)
qed

section \<open>The batch driver: what a call returns and reports\<close>

lemma int_digits_raises: "int_digits acc s = Inl e \<Longrightarrow> e = ValueError"
  by (induction acc s rule: int_digits.induct) (auto split: if_splits list.splits)

lemma py_int_raises: "py_int s = Inl e \<Longrightarrow> e = ValueError"
  by (auto simp: py_int_def int_literal_def split: list.splits if_splits sum.splits
      dest: int_digits_raises)

lemma tuneids_raises: "tuneids links = Inl e \<Longrightarrow> e = KeyError \<or> e = TypeError \<or> e = ValueError"
proof (induction links)
  case Nil
  then show ?case by simp
next
  case (Cons tune rest)
  then show ?case
    by (auto simp: then_do_def getitem_def int_of_attr_def
        split: sum.splits node.splits option.splits attr_value.splits dest: py_int_raises)
qed

lemma parse_stats_raises: "parse_stats soup_obj = Inl e \<Longrightarrow> e = KeyError \<or> e = ValueError"
proof -
  assume a: "parse_stats soup_obj = Inl e"
  let ?r = "then_do (then_do (py_find (has_attr ''class'' ''stats'') (Some soup_obj))
                            (py_find_all (has_name ''a''))) tuneids"
  have "?r = Inl x \<Longrightarrow> x = KeyError \<or> x = TypeError \<or> x = ValueError \<or> x = AttributeError" for x
    by (auto simp: then_do_def py_find_def py_find_all_def split: sum.splits option.splits
        dest: tuneids_raises)
  then show ?thesis
    using a by (auto simp: parse_stats_def split: sum.splits exn.splits)
qed

lemma strain_soup_raises: "strain_soup soup num = Inl e \<Longrightarrow> e = KeyError \<or> e = ValueError"
  by (auto simp: strain_soup_def then_do_def Let_def split: prod.splits sum.splits
      dest: parse_stats_raises)

lemma strain_soup_id: "strain_soup soup num = Inr t \<Longrightarrow> tune_id t = num"
  by (auto simp: strain_soup_def then_do_def Let_def split: prod.splits sum.splits)

lemma fetch_pages_returns:
  "fetch_pages net html_parser nums tune_list w = (Inr tune_list', w') \<Longrightarrow>
   (\<exists>new. tune_list' = tune_list @ new \<and> subseq (map tune_id new) nums)
   \<and> stdout w' = stdout w \<and> tunes_json w' = tunes_json w"
proof (induction nums arbitrary: tune_list w)
  case Nil
  then show ?case by simp
next
  case (Cons num nums)
  obtain res w1 where g: "get_soup net html_parser num w = (res, w1)"
    by (cases "get_soup net html_parser num w")
  note keep = get_soup_keeps [OF g]
  show ?case
  proof (cases res)
    case (Inl e)
    then have e: "e = HTTPError" using g get_soup_raises by blast
    then have "fetch_pages net html_parser nums tune_list w1 = (Inr tune_list', w')"
      using Cons.prems g Inl by simp
    from Cons.IH [OF this] keep show ?thesis by auto
  next
    case (Inr soup)
    show ?thesis
    proof (cases "strain_soup soup num")
      case (Inl e)
      then show ?thesis using Cons.prems g Inr by simp
    next
      case t: (Inr strained_soup)
      then have "fetch_pages net html_parser nums (tune_list @ [strained_soup]) w1 = (Inr tune_list', w')"
        using Cons.prems g Inr by simp
      from Cons.IH [OF this] obtain new where
        new: "tune_list' = (tune_list @ [strained_soup]) @ new" "subseq (map tune_id new) nums"
        and w: "stdout w' = stdout w1 \<and> tunes_json w' = tunes_json w1" by blast
      have "subseq (map tune_id (strained_soup # new)) (num # nums)"
        using new(2) strain_soup_id [OF t] by simp
      then show ?thesis using new(1) w keep by (intro conjI exI [of _ "strained_soup # new"]) auto
    qed
  qed
qed

lemma fetch_pages_raises:
  "fetch_pages net html_parser nums tune_list w = (Inl e, w') \<Longrightarrow> e = KeyError \<or> e = ValueError"
proof (induction nums arbitrary: tune_list w)
  case Nil
  then show ?case by simp
next
  case (Cons num nums)
  obtain res w1 where g: "get_soup net html_parser num w = (res, w1)"
    by (cases "get_soup net html_parser num w")
  show ?case
  proof (cases res)
    case (Inl x)
    then have "x = HTTPError" using g get_soup_raises by blast
    then show ?thesis using Cons g Inl by simp
  next
    case (Inr soup)
    then show ?thesis
      using Cons g by (cases "strain_soup soup num") (auto dest: strain_soup_raises)
  qed
qed

lemma get_session_tunes_returns:
  assumes "get_session_tunes net html_parser pages start library w = (Inr tune_list, w')"
  shows "\<exists>lib new. initial_tune_list library = Inr lib
           \<and> tune_list = lib @ new
           \<and> subseq (map tune_id new) [start..start + pages - 1]
           \<and> stdout w' = stdout w @
               [''Obtained data for '' @ str_int (int (length lib) + int (length new))
                 @ '' tunes (IDs '' @ str_int start @ ''-'' @ str_int (start + pages - 1) @ '').'']"
proof -
  obtain lib where lib: "initial_tune_list library = Inr lib"
    using assms by (cases "initial_tune_list library") (auto simp: get_session_tunes_def)
  obtain w1 where f: "fetch_pages net html_parser [start..start + pages - 1] lib w = (Inr tune_list, w1)"
    and w': "w' = print (report tune_list start pages) w1"
    using assms lib by (auto simp: get_session_tunes_def split: prod.splits sum.splits)
  from fetch_pages_returns [OF f] obtain new where
    new: "tune_list = lib @ new" "subseq (map tune_id new) [start..start + pages - 1]"
    and keep: "stdout w1 = stdout w" by blast
  show ?thesis
    using lib new keep w' by (intro exI [of _ lib] exI [of _ new]) (simp add: print_def report_def)
qed

lemma range_of_three: "[start..start + 3 - 1] = [start, start + 1, start + 2]"
  by (simp add: upto_rec1)

lemma get_session_tunes_skips_http_error:
  assumes "get_soup net html_parser start w = (Inr soup1, w1)"
      and "get_soup net html_parser (start + 1) w1 = (Inl HTTPError, w2)"
      and "get_soup net html_parser (start + 2) w2 = (Inr soup3, w3)"
      and "strain_soup soup1 start = Inr rec1"
      and "strain_soup soup3 (start + 2) = Inr rec3"
  shows "get_session_tunes net html_parser 3 start PyNone w =
           (Inr [rec1, rec3],
            print (''Obtained data for 2 tunes (IDs '' @ str_int start @ ''-''
                     @ str_int (start + 2) @ '').'') w3)"
proof -
  have two: "str_int 2 = ''2''" by code_simp
  have f: "fetch_pages net html_parser [start..start + 3 - 1] [] w = (Inr [rec1, rec3], w3)"
    unfolding range_of_three using assms by simp
  have r: "report [rec1, rec3] start 3 =
             ''Obtained data for 2 tunes (IDs '' @ str_int start @ ''-'' @ str_int (start + 2) @ '').''"
    by (simp add: report_def two add.commute)
  show ?thesis
    by (simp only: get_session_tunes_def initial_tune_list_def pyobj.case sum.case f prod.case r)
qed


lemma strain_soup_empty_document: "strain_soup empty_document n = Inr (blank_record n)"
  by (simp add: strain_soup_def empty_document_def blank_record_def parse_h1_def
      parse_summary_def parse_stats_def parse_paragraphs_def parse_aliases_def count_of_def
      parse_tabs_def py_find_def py_find_all_def py_text_def then_do_def or_default_def
      find_first_def find_all_def)

text \<open>
  Claim C1 expects two records, for \<open>start\<close> and \<open>start + 2\<close>, whenever those two fetches succeed
  and the fetch of \<open>start + 1\<close> raises an HTTP error. The lemma
  \<open>get_session_tunes_skips_http_error\<close> above shows this for every call in which the extraction
  of the two fetched pages completes. It does not always complete: \<open>strain_soup\<close> runs outside
  the \<open>try\<close> of the loop, so the \<open>KeyError\<close> that leaves \<open>parse_stats\<close> on a stats hyperlink without
  \<open>data-tuneid\<close> ends the whole call, with no record and no report. Evaluated for the
  identifiers 1 to 3, where 2 answers with status 404 and the pages of 1 and 3 hold such a
  hyperlink:
\<close>

theorem get_session_tunes_link_without_id:
  "fst (get_soup net_second_missing (\<lambda>s. stats_link_without_id) 1 fresh_world)
     = Inr stats_link_without_id
   \<and> fst (get_soup net_second_missing (\<lambda>s. stats_link_without_id) 2 fresh_world)
     = Inl HTTPError
   \<and> fst (get_soup net_second_missing (\<lambda>s. stats_link_without_id) 3 fresh_world)
     = Inr stats_link_without_id
   \<and> get_session_tunes net_second_missing (\<lambda>s. stats_link_without_id) 3 1 PyNone fresh_world
     = (Inl KeyError,
        \<lparr>requests_log = [''https://thesession.org/tunes/1''], stdout = [],
          tunes_json = Some []\<rparr>)"
  by code_simp

text \<open>
  Claim C8. A \<open>library\<close> argument that is neither \<open>None\<close> nor a list makes the call raise
  \<open>AssertionError\<close> at once: the world is returned unchanged, so no request was made and
  nothing was printed. With a list argument the check passes: the call never raises
  \<open>AssertionError\<close>, and the list it returns is the given list followed by the records made
  during the call, whose identifiers are taken in order from the requested range.
\<close>

theorem get_session_tunes_library_check:
  "(library \<noteq> PyNone \<and> (\<forall>l. library \<noteq> PyList l) \<longrightarrow>
      get_session_tunes net html_parser pages start library w
        = (Inl (AssertionError ''library must be a 1D list.''), w))
   \<and> (\<forall>msg. fst (get_session_tunes net html_parser pages start (PyList l) w) \<noteq> Inl (AssertionError msg))
   \<and> (\<forall>tune_list w'.
        get_session_tunes net html_parser pages start (PyList l) w = (Inr tune_list, w') \<longrightarrow>
        (\<exists>new. tune_list = l @ new \<and> subseq (map tune_id new) [start..start + pages - 1]))"
proof (intro conjI allI impI)
  assume "library \<noteq> PyNone \<and> (\<forall>l. library \<noteq> PyList l)"
  then show "get_session_tunes net html_parser pages start library w
        = (Inl (AssertionError ''library must be a 1D list.''), w)"
    by (cases library) (auto simp: get_session_tunes_def initial_tune_list_def)
next
  fix msg
  show "fst (get_session_tunes net html_parser pages start (PyList l) w) \<noteq> Inl (AssertionError msg)"
  proof
    assume a: "fst (get_session_tunes net html_parser pages start (PyList l) w) = Inl (AssertionError msg)"
    then obtain w1 where "fetch_pages net html_parser [start..start + pages - 1] l w = (Inl (AssertionError msg), w1)"
      by (auto simp: get_session_tunes_def initial_tune_list_def split: prod.splits sum.splits)
    from fetch_pages_raises [OF this] show False by simp
  qed
next
  fix tune_list w'
  assume "get_session_tunes net html_parser pages start (PyList l) w = (Inr tune_list, w')"
  from get_session_tunes_returns [OF this]
  show "\<exists>new. tune_list = l @ new \<and> subseq (map tune_id new) [start..start + pages - 1]"
    by (auto simp: initial_tune_list_def)
qed


theorem get_session_tunes_library_check_witness:
  "get_session_tunes net_up (\<lambda>s. empty_document) 2 1 (PyStr ''tunes.json'') fresh_world
     = (Inl (AssertionError ''library must be a 1D list.''), fresh_world)
   \<and> get_session_tunes net_up (\<lambda>s. empty_document) 1 1 (PyList [kesh]) fresh_world
     = (Inr [kesh, blank_record 1],
        \<lparr>requests_log = [''https://thesession.org/tunes/1''],
          stdout = [''Obtained data for 2 tunes (IDs 1-1).''], tunes_json = Some []\<rparr>)
   \<and> (\<exists>new. [kesh, blank_record 1] = [kesh] @ new \<and> subseq (map tune_id new) [1..1 + 1 - 1])"
proof -
  have run: "get_session_tunes net_up (\<lambda>s. empty_document) 1 1 (PyList [kesh]) fresh_world
     = (Inr [kesh, blank_record 1],
        \<lparr>requests_log = [''https://thesession.org/tunes/1''],
          stdout = [''Obtained data for 2 tunes (IDs 1-1).''], tunes_json = Some []\<rparr>)"
    by code_simp
  note check = get_session_tunes_library_check
    [where library = "PyStr ''tunes.json''" and net = net_up
       and html_parser = "\<lambda>s. empty_document" and pages = 2 and start = 1
       and w = fresh_world and l = "[kesh]"]
  note extend = get_session_tunes_library_check
    [where library = "PyList [kesh]" and net = net_up
       and html_parser = "\<lambda>s. empty_document" and pages = 1 and start = 1
       and w = fresh_world and l = "[kesh]"]
  have refused: "get_session_tunes net_up (\<lambda>s. empty_document) 2 1 (PyStr ''tunes.json'') fresh_world
     = (Inl (AssertionError ''library must be a 1D list.''), fresh_world)"
    using check by simp
  have extended: "\<exists>new. [kesh, blank_record 1] = [kesh] @ new
                    \<and> subseq (map tune_id new) [1..1 + 1 - 1]"
    using extend run by blast
  show ?thesis
    using refused run extended by blast
qed

text \<open>
  Claim C9, as amended. Whenever a call returns, the list it returns is the given library
  (empty when none was given) followed by the records extracted during the call, and the
  line it prints reports the length of that whole list, that is, the size of the library
  plus the number of records extracted during the call, together with the attempted range
  from \<open>start\<close> to \<open>start + pages - 1\<close>, whatever fetches failed. The count is the number of
  records extracted during the call exactly when the library is absent or empty.
\<close>

theorem get_session_tunes_report:
  assumes "get_session_tunes net html_parser pages start library w = (Inr tune_list, w')"
  shows "\<exists>lib new. initial_tune_list library = Inr lib
           \<and> tune_list = lib @ new
           \<and> subseq (map tune_id new) [start..start + pages - 1]
           \<and> stdout w' = stdout w @
               [''Obtained data for '' @ str_int (int (length lib) + int (length new))
                 @ '' tunes (IDs '' @ str_int start @ ''-'' @ str_int (start + pages - 1) @ '').'']"
  using assms by (rule get_session_tunes_returns)

theorem get_session_tunes_report_witness:
  "get_session_tunes net_second_missing (\<lambda>s. empty_document) 3 1 PyNone fresh_world
     = (Inr [blank_record 1, blank_record 3],
        \<lparr>requests_log = [''https://thesession.org/tunes/1'', ''https://thesession.org/tunes/2'',
                          ''https://thesession.org/tunes/3''],
          stdout = [''Obtained data for 2 tunes (IDs 1-3).''], tunes_json = Some []\<rparr>)
   \<and> (\<exists>lib new. initial_tune_list PyNone = Inr lib
         \<and> [blank_record 1, blank_record 3] = lib @ new
         \<and> subseq (map tune_id new) [1..1 + 3 - 1]
         \<and> [''Obtained data for 2 tunes (IDs 1-3).''] = stdout fresh_world @
               [''Obtained data for '' @ str_int (int (length lib) + int (length new))
                 @ '' tunes (IDs '' @ str_int 1 @ ''-'' @ str_int (1 + 3 - 1) @ '').''])"
proof -
  have run: "get_session_tunes net_second_missing (\<lambda>s. empty_document) 3 1 PyNone fresh_world
     = (Inr [blank_record 1, blank_record 3],
        \<lparr>requests_log = [''https://thesession.org/tunes/1'', ''https://thesession.org/tunes/2'',
                          ''https://thesession.org/tunes/3''],
          stdout = [''Obtained data for 2 tunes (IDs 1-3).''], tunes_json = Some []\<rparr>)"
    by code_simp
  show ?thesis
    using get_session_tunes_report [OF run] run by simp
qed

text \<open>
  The claim as first stated fails for a call that is given a library. With a library of one
  record and one page to fetch, one record is extracted during the call, and the line
  printed reports two.
\<close>

theorem get_session_tunes_counts_library:
  "get_session_tunes net_up (\<lambda>s. empty_document) 1 1 (PyList [kesh]) fresh_world
     = (Inr [kesh, blank_record 1],
        \<lparr>requests_log = [''https://thesession.org/tunes/1''],
          stdout = [''Obtained data for 2 tunes (IDs 1-1).''], tunes_json = Some []\<rparr>)"
  by code_simp

section \<open>The persistence merge: merging a batch again\<close>

lemma merge_batch_succeeds:
  assumes "merge_batch recs w = (Inr (), w1)"
  obtains library where "recs \<noteq> []" and "tunes_json w = Some library"
    and "distinct (map fst (library @ map (\<lambda>t. (tune_id t, t)) recs))"
    and "w1 = w\<lparr>tunes_json := Some (library @ map (\<lambda>t. (tune_id t, t)) recs)\<rparr>"
  using assms
  by (auto simp: merge_batch_def combined_data_def set_index_id_def read_json_def pd_concat_def
      to_json_def then_do_def split: if_splits option.splits)

lemma combined_data_appends:
  "recs \<noteq> [] \<Longrightarrow> tunes_json w = Some library \<Longrightarrow>
   combined_data recs w = Inr (library @ map (\<lambda>t. (tune_id t, t)) recs)"
  by (simp add: combined_data_def set_index_id_def read_json_def pd_concat_def then_do_def)

lemma count_twice:
  assumes "t \<in> set recs"
  shows "2 \<le> count_list (map fst ((library @ map (\<lambda>t. (tune_id t, t)) recs)
                                      @ map (\<lambda>t. (tune_id t, t)) recs)) (tune_id t)"
proof -
  have "tune_id t \<in> set (map tune_id recs)" using assms by simp
  then have "1 \<le> count_list (map tune_id recs) (tune_id t)"
    by (metis count_list_0_iff not_less_eq_eq le_zero_eq One_nat_def)
  then show ?thesis by (simp add: comp_def)
qed

text \<open>
  Claim C7, as amended. The merge keeps every row: the table it builds is the persisted
  rows followed by one row per record of the batch, with no deduplication by id. So when a
  batch is merged again after a merge of it has succeeded, the table built holds every id
  of the batch at least twice. That table is never persisted: \<open>to_json\<close> refuses an index
  that is not unique, the second merge raises \<open>ValueError\<close>, and the persisted dataset stays
  as the first merge wrote it.
\<close>

theorem merge_batch_again:
  assumes "merge_batch recs w = (Inr (), w1)"
  shows "\<exists>library df.
           tunes_json w = Some library
         \<and> tunes_json w1 = Some (library @ map (\<lambda>t. (tune_id t, t)) recs)
         \<and> combined_data recs w1 = Inr df
         \<and> df = (library @ map (\<lambda>t. (tune_id t, t)) recs) @ map (\<lambda>t. (tune_id t, t)) recs
         \<and> list_all (\<lambda>t. 2 \<le> count_list (map fst df) (tune_id t)) recs
         \<and> merge_batch recs w1 = (Inl ValueError, w1)"
proof -
  from assms obtain library where ne: "recs \<noteq> []" and lib: "tunes_json w = Some library"
    and w1: "w1 = w\<lparr>tunes_json := Some (library @ map (\<lambda>t. (tune_id t, t)) recs)\<rparr>"
    by (rule merge_batch_succeeds)
  let ?idx = "map (\<lambda>t. (tune_id t, t)) recs"
  let ?df = "(library @ ?idx) @ ?idx"
  have stored: "tunes_json w1 = Some (library @ ?idx)" using w1 by simp
  have comb: "combined_data recs w1 = Inr ?df"
    using combined_data_appends [OF ne stored] by simp
  have twice: "list_all (\<lambda>t. 2 \<le> count_list (map fst ?df) (tune_id t)) recs"
    unfolding list_all_iff using count_twice by blast
  obtain t where "t \<in> set recs" using ne by (cases recs) auto
  then have "tune_id t \<in> set (map fst (library @ ?idx)) \<inter> set (map fst ?idx)"
    by (auto simp: image_iff)
  then have "\<not> distinct (map fst ?df)" by auto
  then have "merge_batch recs w1 = (Inl ValueError, w1)"
    using comb by (simp add: merge_batch_def to_json_def)
  then show ?thesis using lib stored comb twice by blast
qed

theorem merge_batch_again_witness:
  "merge_batch [kesh] fresh_world = (Inr (), fresh_world\<lparr>tunes_json := Some [(55, kesh)]\<rparr>)
   \<and> combined_data [kesh] (fresh_world\<lparr>tunes_json := Some [(55, kesh)]\<rparr>)
       = Inr [(55, kesh), (55, kesh)]
   \<and> merge_batch [kesh] (fresh_world\<lparr>tunes_json := Some [(55, kesh)]\<rparr>)
       = (Inl ValueError, fresh_world\<lparr>tunes_json := Some [(55, kesh)]\<rparr>)"
proof -
  have first: "merge_batch [kesh] fresh_world
                 = (Inr (), fresh_world\<lparr>tunes_json := Some [(55, kesh)]\<rparr>)"
    by (simp add: merge_batch_def combined_data_def set_index_id_def read_json_def pd_concat_def
        to_json_def then_do_def fresh_world_def kesh_def)
  have lib: "tunes_json fresh_world = Some []" by (simp add: fresh_world_def)
  have idx: "map (\<lambda>t. (tune_id t, t)) [kesh] = [(55, kesh)]" by (simp add: kesh_def)
  show ?thesis
    using merge_batch_again [OF first] first lib idx by auto
qed

text \<open>
  The claim as first stated fails: after the same one-record batch is merged twice into an
  empty dataset, the persisted dataset holds one row for its id, not two, and the second
  merge has raised.
\<close>

theorem merge_batch_twice_keeps_one_row:
  "tunes_json (snd (merge_batch [kesh] (snd (merge_batch [kesh] fresh_world))))
     = Some [(55, kesh)]
   \<and> fst (merge_batch [kesh] (snd (merge_batch [kesh] fresh_world))) = Inl ValueError"
  by (simp add: merge_batch_def combined_data_def set_index_id_def read_json_def pd_concat_def
      to_json_def then_do_def fresh_world_def kesh_def)

end
